theory Spec2Isabelle
  imports Main
begin

section \<open>Package firewall: identity propagation and role-based access control\<close>

subsection \<open>Errors\<close>

text \<open>
  The status codes of \<^verbatim>\<open>google.golang.org/grpc/codes\<close>. The firewall uses
  \<^verbatim>\<open>codes.PermissionDenied\<close> only.
\<close>

datatype codes =
    OK | Canceled | Unknown | InvalidArgument | DeadlineExceeded | NotFound
  | AlreadyExists | PermissionDenied | ResourceExhausted | FailedPrecondition
  | Aborted | OutOfRange | Unimplemented | Internal | Unavailable | DataLoss
  | Unauthenticated

text \<open>
  A value of Go's \<^verbatim>\<open>error\<close> interface, by its dynamic kind: a gRPC status (what
  \<^verbatim>\<open>status.Errorf\<close> builds, a code and a message), an error value of
  \<^verbatim>\<open>encoding/json\<close> (the type \<open>'j\<close> stands for that package's error values), or
  any other error, by its message. An absent error (\<^verbatim>\<open>nil\<close>) is \<open>None\<close> of
  \<open>'j error option\<close>.
\<close>

datatype 'j error = StatusError codes string | JSONError 'j | OtherError string

text \<open>\<^verbatim>\<open>ErrInvalidRole = status.Errorf(codes.PermissionDenied, "Invalid role")\<close>\<close>

definition ErrInvalidRole :: "'j error" where
  "ErrInvalidRole = StatusError PermissionDenied ''Invalid role''"

text \<open>\<^verbatim>\<open>const mdIdentityKey = "identity"\<close>\<close>

definition mdIdentityKey :: string where
  "mdIdentityKey = ''identity''"

subsection \<open>Identity, call context and metadata\<close>

text \<open>
  Modelled from the spec: the struct \<^verbatim>\<open>identity.Identity\<close> is declared in package
  \<^verbatim>\<open>pkg/identity\<close>, which is not among the sources. The firewall reads the field
  \<^verbatim>\<open>Roles\<close> only, ranges over it and compares each element with a string. The other
  attributes are opaque to this layer: they are the extension part of the record
  scheme \<open>'a identity_scheme\<close>.
\<close>

record identity =
  Roles :: "string list"

text \<open>
  \<^verbatim>\<open>metadata.MD\<close> is \<^verbatim>\<open>map[string][]string\<close>. \<^verbatim>\<open>md.Get(k)\<close> returns the values
  stored under \<open>k\<close>, and the nil slice (of length 0) for a key that is not in the map.
  (It looks \<open>k\<close> up in lower case; the one key of the firewall is in lower case.)
\<close>

type_synonym MD = "string \<rightharpoonup> string list"

definition md_Get :: "MD \<Rightarrow> string \<Rightarrow> string list" where
  "md_Get md k = (case md k of None \<Rightarrow> [] | Some values \<Rightarrow> values)"

text \<open>
  A \<^verbatim>\<open>context.Context\<close> is a carrier of request-scoped values. The firewall reaches
  three of them: the identity stored by package identity, the incoming metadata
  (absent when the context was not made by the gRPC server transport) and the outgoing
  metadata. Everything else a context carries is the extension part of the scheme.
\<close>

record 'a Context =
  identity_value :: "'a identity_scheme option"
  incoming_md :: "MD option"
  outgoing_md :: MD

text \<open>
  Modelled from the spec: \<^verbatim>\<open>identity.FromContext\<close> and
  \<^verbatim>\<open>identity.ContextWithIdentity\<close> of the missing package identity, the accessor and
  injector pair operating on the call context. \<^verbatim>\<open>FromContext\<close> returns the identity
  and \<^verbatim>\<open>ok\<close>; here \<open>None\<close> is \<^verbatim>\<open>ok = false\<close>.
\<close>

definition FromContext :: "('a, 'z) Context_scheme \<Rightarrow> 'a identity_scheme option" where
  "FromContext ctx = identity_value ctx"

definition ContextWithIdentity ::
  "('a, 'z) Context_scheme \<Rightarrow> 'a identity_scheme \<Rightarrow> ('a, 'z) Context_scheme" where
  "ContextWithIdentity ctx i = ctx\<lparr>identity_value := Some i\<rparr>"

text \<open>
  \<^verbatim>\<open>metadata.FromIncomingContext\<close> returns the incoming metadata and \<^verbatim>\<open>ok\<close>;
  \<^verbatim>\<open>metadata.AppendToOutgoingContext(ctx, k, v)\<close> returns a context whose outgoing
  metadata has \<open>v\<close> appended to the values under \<open>k\<close>.
\<close>

definition FromIncomingContext :: "('a, 'z) Context_scheme \<Rightarrow> MD option" where
  "FromIncomingContext ctx = incoming_md ctx"

definition AppendToOutgoingContext ::
  "('a, 'z) Context_scheme \<Rightarrow> string \<Rightarrow> string \<Rightarrow> ('a, 'z) Context_scheme" where
  "AppendToOutgoingContext ctx k v =
     ctx\<lparr>outgoing_md := (outgoing_md ctx)(k \<mapsto> md_Get (outgoing_md ctx) k @ [v])\<rparr>"

text \<open>
  A \<^verbatim>\<open>grpc.ServerStream\<close>: its method \<^verbatim>\<open>Context()\<close> is the field
  \<open>stream_Context\<close>; the rest of the stream is the extension part.
\<close>

record ('a, 'z) ServerStream =
  stream_Context :: "('a, 'z) Context_scheme"

subsection \<open>Calls made by an interceptor\<close>

text \<open>
  An interceptor returns, next to its result, the calls it made to its collaborators,
  in order. On the server side: \<open>Unmarshal v\<close> is a call of \<^verbatim>\<open>json.Unmarshal\<close> on the
  bytes of \<open>v\<close>, \<open>HandlerCall\<close> a call of the wrapped handler with these arguments
  (\<^verbatim>\<open>(ctx, req)\<close> for a unary handler, \<^verbatim>\<open>(srv, ss)\<close> for a stream handler). On the
  client side: \<open>Marshal i\<close> is a call of \<^verbatim>\<open>json.Marshal\<close>, \<open>Forward\<close> the call of the
  invoker (with \<^verbatim>\<open>(ctx, method, req, reply, cc, opts)\<close>) or of the streamer (with
  \<^verbatim>\<open>(ctx, desc, cc, method, opts)\<close>).
  The handler, the invoker and the streamer are the caller's: each is a function from
  the arguments of the one call an interceptor makes of it to what that call returns.
\<close>

datatype 'args server_event =
    Unmarshal string
  | HandlerCall 'args

datatype ('i, 'args) client_event =
    Marshal 'i
  | Forward 'args

text \<open>The arguments of the handler calls of a trace, in order.\<close>

fun handler_args :: "'args server_event list \<Rightarrow> 'args list" where
  "handler_args [] = []"
| "handler_args (Unmarshal v # evs) = handler_args evs"
| "handler_args (HandlerCall args # evs) = args # handler_args evs"

subsection \<open>Client side\<close>

text \<open>
  \<^verbatim>\<open>AppendIdentityToOutgoingUnaryContext\<close>. The parameter \<open>marshal\<close> is
  \<^verbatim>\<open>json.Marshal\<close> at type Identity: \<open>Inl\<close> its error, \<open>Inr\<close> the JSON text.
\<close>

definition AppendIdentityToOutgoingUnaryContext ::
  "('a identity_scheme \<Rightarrow> 'j + string) \<Rightarrow>
   ('a, 'z) Context_scheme \<Rightarrow> string \<Rightarrow> 'v \<Rightarrow> 'v \<Rightarrow> 'cc \<Rightarrow>
   (('a, 'z) Context_scheme \<Rightarrow> string \<Rightarrow> 'v \<Rightarrow> 'v \<Rightarrow> 'cc \<Rightarrow> 'o list \<Rightarrow> 'j error option) \<Rightarrow>
   'o list \<Rightarrow>
   ('a identity_scheme,
    ('a, 'z) Context_scheme \<times> string \<times> 'v \<times> 'v \<times> 'cc \<times> 'o list) client_event list
     \<times> 'j error option" where
  "AppendIdentityToOutgoingUnaryContext marshal ctx method req reply cc invoker opts =
     (case FromContext ctx of
        Some i \<Rightarrow>
          (case marshal i of
             Inl err \<Rightarrow> ([Marshal i], Some (JSONError err))
           | Inr jsn \<Rightarrow>
               (let ctx' = AppendToOutgoingContext ctx mdIdentityKey jsn
                in ([Marshal i, Forward (ctx', method, req, reply, cc, opts)],
                    invoker ctx' method req reply cc opts)))
      | None \<Rightarrow>
          ([Forward (ctx, method, req, reply, cc, opts)],
           invoker ctx method req reply cc opts))"

text \<open>
  \<^verbatim>\<open>AppendIdentityToOutgoingStreamContext\<close>. The streamer returns a client stream
  (\<open>None\<close> is \<^verbatim>\<open>nil\<close>) and an error.
\<close>

definition AppendIdentityToOutgoingStreamContext ::
  "('a identity_scheme \<Rightarrow> 'j + string) \<Rightarrow>
   ('a, 'z) Context_scheme \<Rightarrow> 'd \<Rightarrow> 'cc \<Rightarrow> string \<Rightarrow>
   (('a, 'z) Context_scheme \<Rightarrow> 'd \<Rightarrow> 'cc \<Rightarrow> string \<Rightarrow> 'o list \<Rightarrow>
      'cs option \<times> 'j error option) \<Rightarrow>
   'o list \<Rightarrow>
   ('a identity_scheme,
    ('a, 'z) Context_scheme \<times> 'd \<times> 'cc \<times> string \<times> 'o list) client_event list
     \<times> ('cs option \<times> 'j error option)" where
  "AppendIdentityToOutgoingStreamContext marshal ctx desc cc method streamer opts =
     (case FromContext ctx of
        Some i \<Rightarrow>
          (case marshal i of
             Inl err \<Rightarrow> ([Marshal i], (None, Some (JSONError err)))
           | Inr jsn \<Rightarrow>
               (let ctx' = AppendToOutgoingContext ctx mdIdentityKey jsn
                in ([Marshal i, Forward (ctx', desc, cc, method, opts)],
                    streamer ctx' desc cc method opts)))
      | None \<Rightarrow>
          ([Forward (ctx, desc, cc, method, opts)],
           streamer ctx desc cc method opts))"

subsection \<open>Server side\<close>

text \<open>
  The loop \<^verbatim>\<open>for _, userRole := range i.Roles\<close> of
  \<^verbatim>\<open>GrantAccessForStreamRequest\<close>: \<open>Some\<close> when the loop returned from the
  interceptor (with the handler's result), \<open>None\<close> when it ran to its end.
\<close>

fun stream_roles_loop ::
  "string \<Rightarrow> string list \<Rightarrow> 'v \<Rightarrow> 's \<Rightarrow> ('v \<Rightarrow> 's \<Rightarrow> 'j error option) \<Rightarrow>
   (('v \<times> 's) server_event list \<times> 'j error option) option" where
  "stream_roles_loop role [] srv ss handler = None"
| "stream_roles_loop role (userRole # rest) srv ss handler =
     (if userRole = role then Some ([HandlerCall (srv, ss)], handler srv ss)
      else stream_roles_loop role rest srv ss handler)"

text \<open>
  \<^verbatim>\<open>GrantAccessForStreamRequest\<close>. The parameter \<open>unmarshal\<close> is
  \<^verbatim>\<open>json.Unmarshal\<close> into a zero Identity: \<open>Inl\<close> its error, \<open>Inr\<close> the identity.
\<close>

definition GrantAccessForStreamRequest ::
  "(string \<Rightarrow> 'j + 'a identity_scheme) \<Rightarrow> string \<Rightarrow>
   'v \<Rightarrow> ('a, 'z, 'y) ServerStream_scheme \<Rightarrow> 'n \<Rightarrow>
   ('v \<Rightarrow> ('a, 'z, 'y) ServerStream_scheme \<Rightarrow> 'j error option) \<Rightarrow>
   ('v \<times> ('a, 'z, 'y) ServerStream_scheme) server_event list \<times> 'j error option" where
  "GrantAccessForStreamRequest unmarshal role srv ss info handler =
     (case FromIncomingContext (stream_Context ss) of
        Some md \<Rightarrow>
          (case md_Get md mdIdentityKey of
             v # _ \<Rightarrow>
               (case unmarshal v of
                  Inl err \<Rightarrow> ([Unmarshal v], Some (JSONError err))
                | Inr i \<Rightarrow>
                    (case stream_roles_loop role (Roles i) srv ss handler of
                       Some (calls, r) \<Rightarrow> (Unmarshal v # calls, r)
                     | None \<Rightarrow> ([Unmarshal v], Some ErrInvalidRole)))
           | [] \<Rightarrow> ([], Some ErrInvalidRole))
      | None \<Rightarrow> ([], Some ErrInvalidRole))"

text \<open>The same loop in \<^verbatim>\<open>GrantAccessForUnaryRequest\<close>.\<close>

fun unary_roles_loop ::
  "string \<Rightarrow> string list \<Rightarrow> 'c \<Rightarrow> 'v \<Rightarrow> ('c \<Rightarrow> 'v \<Rightarrow> 'v option \<times> 'j error option) \<Rightarrow>
   (('c \<times> 'v) server_event list \<times> ('v option \<times> 'j error option)) option" where
  "unary_roles_loop role [] ctx req handler = None"
| "unary_roles_loop role (userRole # rest) ctx req handler =
     (if userRole = role then Some ([HandlerCall (ctx, req)], handler ctx req)
      else unary_roles_loop role rest ctx req handler)"

text \<open>
  \<^verbatim>\<open>GrantAccessForUnaryRequest\<close>. The response is an \<^verbatim>\<open>interface{}\<close>, \<open>None\<close> when
  \<^verbatim>\<open>nil\<close>.
\<close>

definition GrantAccessForUnaryRequest ::
  "(string \<Rightarrow> 'j + 'a identity_scheme) \<Rightarrow> string \<Rightarrow>
   ('a, 'z) Context_scheme \<Rightarrow> 'v \<Rightarrow> 'n \<Rightarrow>
   (('a, 'z) Context_scheme \<Rightarrow> 'v \<Rightarrow> 'v option \<times> 'j error option) \<Rightarrow>
   (('a, 'z) Context_scheme \<times> 'v) server_event list
     \<times> ('v option \<times> 'j error option)" where
  "GrantAccessForUnaryRequest unmarshal role ctx req info handler =
     (case FromIncomingContext ctx of
        Some md \<Rightarrow>
          (case md_Get md mdIdentityKey of
             v # _ \<Rightarrow>
               (case unmarshal v of
                  Inl err \<Rightarrow> ([Unmarshal v], (None, Some (JSONError err)))
                | Inr i \<Rightarrow>
                    (case unary_roles_loop role (Roles i) (ContextWithIdentity ctx i) req handler of
                       Some (calls, r) \<Rightarrow> (Unmarshal v # calls, r)
                     | None \<Rightarrow> ([Unmarshal v], (None, Some ErrInvalidRole))))
           | [] \<Rightarrow> ([], (None, Some ErrInvalidRole)))
      | None \<Rightarrow> ([], (None, Some ErrInvalidRole)))"

section \<open>Package user: command handlers\<close>

text \<open>The commands, as the source declares them.\<close>

record 'id ChangeEmailAddress =
  ID :: 'id
  Email :: string

record RegisterWithEmail =
  Email :: string

record RegisterWithFacebook =
  Email :: string

record RegisterWithGoogle =
  Email :: string

text \<open>
  What a handler closure does that its caller can see: the calls to the repository and
  the values sent on the channel \<^verbatim>\<open>out\<close> (\<open>Send None\<close> sends \<^verbatim>\<open>nil\<close>), in order.
\<close>

datatype ('c, 'id, 'u, 'e) user_event =
    GetCall 'id
  | is_SaveCall: SaveCall 'c 'u
  | is_Send: Send "'e option"

text \<open>
  The interface \<^verbatim>\<open>Repository\<close> is declared elsewhere in package user: its two methods
  are parameters. \<open>'u\<close> is the aggregate \<^verbatim>\<open>*User\<close>, \<open>'c\<close> a \<^verbatim>\<open>context.Context\<close>,
  \<open>'e\<close> the error values.
\<close>

record ('c, 'id, 'u, 'e) Repository =
  Get :: "'id \<Rightarrow> 'u"
  Save :: "'c \<Rightarrow> 'u \<Rightarrow> 'e option"

text \<open>
  The other collaborators of the handlers, none of them among the sources, as parameters:
  \<^verbatim>\<open>uuid.NewRandom()\<close> (the identifier and the error of this call), the constructor
  \<^verbatim>\<open>New()\<close> and the methods of the aggregate (a method returns its error and the
  aggregate as it has mutated it), \<^verbatim>\<open>executioncontext.ContextWithFlag\<close> and the flag
  \<^verbatim>\<open>executioncontext.LIVE\<close>.
\<close>

record ('c, 'id, 'u, 'e, 'f) collaborators =
  uuid_NewRandom :: "'id \<times> 'e option"
  New :: 'u
  User_ChangeEmailAddress :: "'u \<Rightarrow> string \<Rightarrow> 'e option \<times> 'u"
  User_RegisterWithEmail :: "'u \<Rightarrow> 'id \<Rightarrow> string \<Rightarrow> 'e option \<times> 'u"
  User_RegisterWithFacebook :: "'u \<Rightarrow> 'id \<Rightarrow> string \<Rightarrow> 'e option \<times> 'u"
  User_RegisterWithGoogle :: "'u \<Rightarrow> 'id \<Rightarrow> string \<Rightarrow> 'e option \<times> 'u"
  ContextWithFlag :: "'c \<Rightarrow> 'f \<Rightarrow> 'c"
  LIVE :: 'f

text \<open>\<^verbatim>\<open>OnChangeEmailAddress(repository)\<close>: the closure \<^verbatim>\<open>fn(ctx, c, out)\<close>.\<close>

definition OnChangeEmailAddress ::
  "('c, 'id, 'u, 'e, 'f) collaborators \<Rightarrow> ('c, 'id, 'u, 'e) Repository \<Rightarrow>
   'c \<Rightarrow> 'id ChangeEmailAddress \<Rightarrow> ('c, 'id, 'u, 'e) user_event list" where
  "OnChangeEmailAddress env repository ctx c =
     (let u = Get repository (ID c);
          (err, u') = User_ChangeEmailAddress env u (ChangeEmailAddress.Email c)
      in case err of
           Some e \<Rightarrow> [GetCall (ID c), Send (Some e)]
         | None \<Rightarrow>
             (let ctx' = ContextWithFlag env ctx (LIVE env)
              in [GetCall (ID c), SaveCall ctx' u', Send (Save repository ctx' u')]))"

text \<open>\<^verbatim>\<open>OnRegisterWithEmail(repository)\<close>\<close>

definition OnRegisterWithEmail ::
  "('c, 'id, 'u, 'e, 'f) collaborators \<Rightarrow> ('c, 'id, 'u, 'e) Repository \<Rightarrow>
   'c \<Rightarrow> RegisterWithEmail \<Rightarrow> ('c, 'id, 'u, 'e) user_event list" where
  "OnRegisterWithEmail env repository ctx c =
     (let (id, err) = uuid_NewRandom env
      in case err of
           Some e \<Rightarrow> [Send (Some e)]
         | None \<Rightarrow>
             (let u = New env;
                  (err, u') = User_RegisterWithEmail env u id (RegisterWithEmail.Email c)
              in case err of
                   Some e \<Rightarrow> [Send (Some e)]
                 | None \<Rightarrow>
                     (let ctx' = ContextWithFlag env ctx (LIVE env)
                      in [SaveCall ctx' u', Send (Save repository ctx' u')])))"

text \<open>\<^verbatim>\<open>OnRegisterWithFacebook(repository)\<close>\<close>

definition OnRegisterWithFacebook ::
  "('c, 'id, 'u, 'e, 'f) collaborators \<Rightarrow> ('c, 'id, 'u, 'e) Repository \<Rightarrow>
   'c \<Rightarrow> RegisterWithFacebook \<Rightarrow> ('c, 'id, 'u, 'e) user_event list" where
  "OnRegisterWithFacebook env repository ctx c =
     (let (id, err) = uuid_NewRandom env
      in case err of
           Some e \<Rightarrow> [Send (Some e)]
         | None \<Rightarrow>
             (let u = New env;
                  (err, u') = User_RegisterWithFacebook env u id (RegisterWithFacebook.Email c)
              in case err of
                   Some e \<Rightarrow> [Send (Some e)]
                 | None \<Rightarrow>
                     (let ctx' = ContextWithFlag env ctx (LIVE env)
                      in [SaveCall ctx' u', Send (Save repository ctx' u')])))"

text \<open>\<^verbatim>\<open>OnRegisterWithGoogle(repository)\<close>\<close>

definition OnRegisterWithGoogle ::
  "('c, 'id, 'u, 'e, 'f) collaborators \<Rightarrow> ('c, 'id, 'u, 'e) Repository \<Rightarrow>
   'c \<Rightarrow> RegisterWithGoogle \<Rightarrow> ('c, 'id, 'u, 'e) user_event list" where
  "OnRegisterWithGoogle env repository ctx c =
     (let (id, err) = uuid_NewRandom env
      in case err of
           Some e \<Rightarrow> [Send (Some e)]
         | None \<Rightarrow>
             (let u = New env;
                  (err, u') = User_RegisterWithGoogle env u id (RegisterWithGoogle.Email c)
              in case err of
                   Some e \<Rightarrow> [Send (Some e)]
                 | None \<Rightarrow>
                     (let ctx' = ContextWithFlag env ctx (LIVE env)
                      in [SaveCall ctx' u', Send (Save repository ctx' u')])))"

text \<open>
  A trace sends exactly one value, and the send is its last event: the closure returns
  right after it.
\<close>

definition sends_once_then_returns :: "('c, 'id, 'u, 'e) user_event list \<Rightarrow> bool" where
  "sends_once_then_returns tr \<longleftrightarrow> length (filter is_Send tr) = 1 \<and> is_Send (last tr)"

section \<open>Scenarios\<close>

text \<open>
  Concrete calls, on which the theorems below are instantiated. The codec of the
  scenarios is a table on three metadata values, standing for \<^verbatim>\<open>encoding/json\<close> at
  those values: two texts that decode to an identity, and a truncated text that does
  not decode. The required role is \<^verbatim>\<open>"admin"\<close>.
\<close>

definition payload_user_admin :: string where
  \<open>payload_user_admin = ''{"roles":["user","admin"]}''\<close>

definition payload_user :: string where
  \<open>payload_user = ''{"roles":["user","Admin"]}''\<close>

definition payload_malformed :: string where
  \<open>payload_malformed = ''{"roles":''\<close>

definition scenario_unmarshal :: "string \<Rightarrow> string + identity" where
  "scenario_unmarshal s =
     (if s = payload_user_admin then Inr \<lparr>Roles = [''user'', ''admin'']\<rparr>
      else if s = payload_user then Inr \<lparr>Roles = [''user'', ''Admin'']\<rparr>
      else Inl ''unexpected end of JSON input'')"

definition scenario_marshal :: "identity \<Rightarrow> string + string" where
  "scenario_marshal i =
     (if Roles i = [''user'', ''admin''] then Inr payload_user_admin
      else if Roles i = [''user'', ''Admin''] then Inr payload_user
      else Inl ''unsupported value'')"

text \<open>
  A context as the server transport hands it over, with these values under the key
  \<^verbatim>\<open>identity\<close> of its incoming metadata; a context with no metadata and no identity;
  a server stream on the former.
\<close>

definition incoming_ctx :: "string list \<Rightarrow> unit Context" where
  "incoming_ctx values =
     \<lparr>identity_value = None, incoming_md = Some [mdIdentityKey \<mapsto> values],
      outgoing_md = Map.empty\<rparr>"

definition background_ctx :: "unit Context" where
  "background_ctx = \<lparr>identity_value = None, incoming_md = None, outgoing_md = Map.empty\<rparr>"

definition incoming_stream :: "string list \<Rightarrow> (unit, unit) ServerStream" where
  "incoming_stream values = \<lparr>stream_Context = incoming_ctx values\<rparr>"

text \<open>
  Handlers that read the identity from the context they are given: the unary one answers
  with the request followed by the caller's roles, both fail when there is no identity.
\<close>

definition scenario_handler ::
  "unit Context \<Rightarrow> string \<Rightarrow> string option \<times> string error option" where
  "scenario_handler ctx req =
     (case FromContext ctx of
        Some i \<Rightarrow> (Some (req @ concat (Roles i)), None)
      | None \<Rightarrow> (None, Some (OtherError ''no identity'')))"

definition scenario_stream_handler ::
  "string \<Rightarrow> (unit, unit) ServerStream \<Rightarrow> string error option" where
  "scenario_stream_handler srv ss =
     (case FromContext (stream_Context ss) of
        Some i \<Rightarrow> None
      | None \<Rightarrow> Some (OtherError ''no identity''))"

text \<open>
  An invoker and a streamer that stand for a remote end guarded by the firewall: they
  fail unless the outgoing metadata has a value under the key \<^verbatim>\<open>identity\<close>.
\<close>

definition scenario_invoker ::
  "unit Context \<Rightarrow> string \<Rightarrow> string \<Rightarrow> string \<Rightarrow> nat \<Rightarrow> nat list \<Rightarrow> string error option" where
  "scenario_invoker ctx method req reply cc opts =
     (if md_Get (outgoing_md ctx) mdIdentityKey = []
      then Some (StatusError PermissionDenied ''Invalid role'')
      else None)"

definition scenario_streamer ::
  "unit Context \<Rightarrow> nat \<Rightarrow> nat \<Rightarrow> string \<Rightarrow> nat list \<Rightarrow> nat option \<times> string error option" where
  "scenario_streamer ctx desc cc method opts =
     (if md_Get (outgoing_md ctx) mdIdentityKey = []
      then (None, Some (StatusError PermissionDenied ''Invalid role''))
      else (Some desc, None))"

text \<open>
  Collaborators of the user handlers: an aggregate that is the list of the e-mail
  addresses it was given and refuses the empty address, a repository that saves
  without error, a context that is the list of its flags.
\<close>

definition scenario_env :: "(string list, nat, string list, string, string) collaborators" where
  "scenario_env =
     \<lparr>uuid_NewRandom = (7, None),
      New = [],
      User_ChangeEmailAddress =
        (\<lambda>u email. if email = [] then (Some ''invalid email'', u) else (None, u @ [email])),
      User_RegisterWithEmail =
        (\<lambda>u id email. if email = [] then (Some ''invalid email'', u) else (None, u @ [email])),
      User_RegisterWithFacebook =
        (\<lambda>u id email. if email = [] then (Some ''invalid email'', u) else (None, u @ [email])),
      User_RegisterWithGoogle =
        (\<lambda>u id email. if email = [] then (Some ''invalid email'', u) else (None, u @ [email])),
      ContextWithFlag = (\<lambda>ctx flag. flag # ctx),
      LIVE = ''live''\<rparr>"

definition scenario_repository :: "(string list, nat, string list, string) Repository" where
  "scenario_repository = \<lparr>Get = (\<lambda>id. [''old@example.com'']), Save = (\<lambda>ctx u. None)\<rparr>"

section \<open>Properties of the firewall\<close>

subsection \<open>The loops and the scenarios\<close>

text \<open>
  The loop over the roles returns at the first role equal to the required one, with the
  handler's result after one call of the handler, and runs to its end when there is none.
\<close>

lemma unary_roles_loop_first_match:
  "unary_roles_loop role roles ctx req handler =
     (if role \<in> set roles then Some ([HandlerCall (ctx, req)], handler ctx req) else None)"
  by (induction roles) auto

lemma stream_roles_loop_first_match:
  "stream_roles_loop role roles srv ss handler =
     (if role \<in> set roles then Some ([HandlerCall (srv, ss)], handler srv ss) else None)"
  by (induction roles) auto

lemma payloads_distinct:
  "payload_user_admin \<noteq> payload_user" "payload_malformed \<noteq> payload_user"
  "payload_malformed \<noteq> payload_user_admin" "payload_user \<noteq> payload_user_admin"
  by (simp_all add: payload_user_admin_def payload_user_def payload_malformed_def)

lemma incoming_ctx_simps:
  "FromIncomingContext (incoming_ctx values) = Some [mdIdentityKey \<mapsto> values]"
  "md_Get [mdIdentityKey \<mapsto> values] mdIdentityKey = values"
  "FromContext (incoming_ctx values) = None"
  "stream_Context (incoming_stream values) = incoming_ctx values"
  by (simp_all add: FromIncomingContext_def incoming_ctx_def md_Get_def FromContext_def
      incoming_stream_def)

lemma background_ctx_simps:
  "FromIncomingContext background_ctx = None"
  "FromContext background_ctx = None"
  "outgoing_md background_ctx = Map.empty"
  by (simp_all add: FromIncomingContext_def FromContext_def background_ctx_def)

subsection \<open>Server side: access granted\<close>

text \<open>
  Claim C1. When the first value under the key \<^verbatim>\<open>identity\<close> of the incoming metadata
  decodes to an identity \<open>i\<close> and some role of \<open>i\<close> is equal, as a string, to the role the
  unary interceptor was built with, the interceptor decodes that value, calls the handler
  once, with the request and the context \<^verbatim>\<open>ContextWithIdentity(ctx, i)\<close>, from which
  \<^verbatim>\<open>FromContext\<close> reads \<open>i\<close>, and returns what the handler returned, response and error.
\<close>

theorem GrantAccessForUnaryRequest_grants:
  assumes "FromIncomingContext ctx = Some md"
    and "md_Get md mdIdentityKey = v # vs"
    and "unmarshal v = Inr i"
    and "role \<in> set (Roles i)"
  shows "GrantAccessForUnaryRequest unmarshal role ctx req info handler =
           ([Unmarshal v, HandlerCall (ContextWithIdentity ctx i, req)],
            handler (ContextWithIdentity ctx i) req)
         \<and> FromContext (ContextWithIdentity ctx i) = Some i"
  using assms
  by (simp add: GrantAccessForUnaryRequest_def unary_roles_loop_first_match FromContext_def
      ContextWithIdentity_def)

text \<open>
  The scenario of the roles \<^verbatim>\<open>["user","admin"]\<close> against the required role
  \<^verbatim>\<open>"admin"\<close>: the handler runs and sees both roles.
\<close>

theorem GrantAccessForUnaryRequest_grants_witness:
  "GrantAccessForUnaryRequest scenario_unmarshal ''admin''
       (incoming_ctx [payload_user_admin]) ''ping'' () scenario_handler =
     ([Unmarshal payload_user_admin,
       HandlerCall
         (ContextWithIdentity (incoming_ctx [payload_user_admin])
            \<lparr>Roles = [''user'', ''admin'']\<rparr>,
          ''ping'')],
      (Some ''pinguseradmin'', None))"
proof -
  have md: "FromIncomingContext (incoming_ctx [payload_user_admin])
      = Some [mdIdentityKey \<mapsto> [payload_user_admin]]"
    by (simp add: incoming_ctx_simps)
  have first: "md_Get [mdIdentityKey \<mapsto> [payload_user_admin]] mdIdentityKey
      = payload_user_admin # []"
    by (simp add: incoming_ctx_simps)
  have decoded: "scenario_unmarshal payload_user_admin = Inr \<lparr>Roles = [''user'', ''admin'']\<rparr>"
    by (simp add: scenario_unmarshal_def)
  have member: "''admin'' \<in> set (Roles \<lparr>Roles = [''user'', ''admin'']\<rparr>)"
    by simp
  show ?thesis
    using GrantAccessForUnaryRequest_grants [where unmarshal = scenario_unmarshal,
        OF md first decoded member, of "''ping''" "()" scenario_handler]
    by (simp add: scenario_handler_def)
qed

subsection \<open>Server side: access denied\<close>

text \<open>
  Claim C2. When the first value under the key decodes to an identity none of whose
  roles is equal to the required role (an identity with no role at all included), the
  unary and the stream interceptor both return the fixed error \<^verbatim>\<open>ErrInvalidRole\<close> (the
  unary one with a nil response), and the only call they made is the decoding: the
  handler is not called.
\<close>

theorem GrantAccess_denies_without_role:
  assumes "FromIncomingContext ctx = Some md"
    and "md_Get md mdIdentityKey = v # vs"
    and "unmarshal v = Inr i"
    and "role \<notin> set (Roles i)"
    and "stream_Context ss = ctx"
  shows "GrantAccessForUnaryRequest unmarshal role ctx req info handler =
           ([Unmarshal v], (None, Some ErrInvalidRole))
         \<and> GrantAccessForStreamRequest unmarshal role srv ss sinfo shandler =
           ([Unmarshal v], Some ErrInvalidRole)"
  using assms
  by (simp add: GrantAccessForUnaryRequest_def GrantAccessForStreamRequest_def
      unary_roles_loop_first_match stream_roles_loop_first_match)

text \<open>
  The roles \<^verbatim>\<open>["user","Admin"]\<close> against the required role \<^verbatim>\<open>"admin"\<close>: the match is
  exact, so \<^verbatim>\<open>"Admin"\<close> does not grant access.
\<close>

theorem GrantAccess_denies_without_role_witness:
  "GrantAccessForUnaryRequest scenario_unmarshal ''admin''
       (incoming_ctx [payload_user]) ''ping'' () scenario_handler =
     ([Unmarshal payload_user], (None, Some (StatusError PermissionDenied ''Invalid role'')))
   \<and> GrantAccessForStreamRequest scenario_unmarshal ''admin''
       ''srv'' (incoming_stream [payload_user]) () scenario_stream_handler =
     ([Unmarshal payload_user], Some (StatusError PermissionDenied ''Invalid role''))"
proof -
  have md: "FromIncomingContext (incoming_ctx [payload_user])
      = Some [mdIdentityKey \<mapsto> [payload_user]]"
    by (simp add: incoming_ctx_simps)
  have first: "md_Get [mdIdentityKey \<mapsto> [payload_user]] mdIdentityKey = payload_user # []"
    by (simp add: incoming_ctx_simps)
  have decoded: "scenario_unmarshal payload_user = Inr \<lparr>Roles = [''user'', ''Admin'']\<rparr>"
    by (simp add: scenario_unmarshal_def payloads_distinct)
  have no_member: "''admin'' \<notin> set (Roles \<lparr>Roles = [''user'', ''Admin'']\<rparr>)"
    by simp
  have ctx: "stream_Context (incoming_stream [payload_user]) = incoming_ctx [payload_user]"
    by (simp add: incoming_ctx_simps)
  show ?thesis
    using GrantAccess_denies_without_role [where unmarshal = scenario_unmarshal,
        OF md first decoded no_member ctx,
        of "''ping''" "()" scenario_handler "''srv''" "()" scenario_stream_handler]
    by (simp add: ErrInvalidRole_def)
qed

text \<open>
  Claim C3. When the first value under the key does not decode, both interceptors
  return the error of \<^verbatim>\<open>json.Unmarshal\<close> itself (the unary one with a nil response) and
  do not call the handler; that error is not \<^verbatim>\<open>ErrInvalidRole\<close>, so a caller can tell
  a decode failure from a denial.
\<close>

theorem GrantAccess_returns_decode_error:
  assumes "FromIncomingContext ctx = Some md"
    and "md_Get md mdIdentityKey = v # vs"
    and "unmarshal v = Inl err"
    and "stream_Context ss = ctx"
  shows "GrantAccessForUnaryRequest unmarshal role ctx req info handler =
           ([Unmarshal v], (None, Some (JSONError err)))
         \<and> GrantAccessForStreamRequest unmarshal role srv ss sinfo shandler =
           ([Unmarshal v], Some (JSONError err))
         \<and> JSONError err \<noteq> ErrInvalidRole"
  using assms
  by (simp add: GrantAccessForUnaryRequest_def GrantAccessForStreamRequest_def
      ErrInvalidRole_def)

theorem GrantAccess_returns_decode_error_witness:
  "GrantAccessForUnaryRequest scenario_unmarshal ''admin''
       (incoming_ctx [payload_malformed]) ''ping'' () scenario_handler =
     ([Unmarshal payload_malformed], (None, Some (JSONError ''unexpected end of JSON input'')))
   \<and> GrantAccessForStreamRequest scenario_unmarshal ''admin''
       ''srv'' (incoming_stream [payload_malformed]) () scenario_stream_handler =
     ([Unmarshal payload_malformed], Some (JSONError ''unexpected end of JSON input''))
   \<and> JSONError ''unexpected end of JSON input'' \<noteq> (ErrInvalidRole :: string error)"
proof -
  have md: "FromIncomingContext (incoming_ctx [payload_malformed])
      = Some [mdIdentityKey \<mapsto> [payload_malformed]]"
    by (simp add: incoming_ctx_simps)
  have first: "md_Get [mdIdentityKey \<mapsto> [payload_malformed]] mdIdentityKey
      = payload_malformed # []"
    by (simp add: incoming_ctx_simps)
  have fails: "scenario_unmarshal payload_malformed = Inl ''unexpected end of JSON input''"
    by (simp add: scenario_unmarshal_def payloads_distinct)
  have ctx: "stream_Context (incoming_stream [payload_malformed])
      = incoming_ctx [payload_malformed]"
    by (simp add: incoming_ctx_simps)
  show ?thesis
    using GrantAccess_returns_decode_error [where unmarshal = scenario_unmarshal,
        OF md first fails ctx,
        of "''admin''" "''ping''" "()" scenario_handler "''srv''" "()" scenario_stream_handler]
    by simp
qed

text \<open>
  Claim C4. When the context has no incoming metadata, or the metadata has no value
  under the key \<^verbatim>\<open>identity\<close> (the key is missing, or its list of values is empty),
  both interceptors return \<^verbatim>\<open>ErrInvalidRole\<close> and made no call at all: nothing was
  decoded and the handler was not called.
\<close>

theorem GrantAccess_denies_without_value:
  assumes "FromIncomingContext ctx = None
           \<or> (\<exists>md. FromIncomingContext ctx = Some md \<and> md_Get md mdIdentityKey = [])"
    and "stream_Context ss = ctx"
  shows "GrantAccessForUnaryRequest unmarshal role ctx req info handler =
           ([], (None, Some ErrInvalidRole))
         \<and> GrantAccessForStreamRequest unmarshal role srv ss sinfo shandler =
           ([], Some ErrInvalidRole)"
  using assms
  by (auto simp add: GrantAccessForUnaryRequest_def GrantAccessForStreamRequest_def)

text \<open>Both cases: a context with no metadata, and metadata with no value under the key.\<close>

theorem GrantAccess_denies_without_value_witness:
  "GrantAccessForUnaryRequest scenario_unmarshal ''admin'' background_ctx ''ping'' ()
       scenario_handler =
     ([], (None, Some (StatusError PermissionDenied ''Invalid role'')))
   \<and> GrantAccessForStreamRequest scenario_unmarshal ''admin'' ''srv''
       \<lparr>stream_Context = background_ctx\<rparr> () scenario_stream_handler =
     ([], Some (StatusError PermissionDenied ''Invalid role''))
   \<and> GrantAccessForUnaryRequest scenario_unmarshal ''admin'' (incoming_ctx []) ''ping'' ()
       scenario_handler =
     ([], (None, Some (StatusError PermissionDenied ''Invalid role'')))
   \<and> GrantAccessForStreamRequest scenario_unmarshal ''admin'' ''srv''
       (incoming_stream []) () scenario_stream_handler =
     ([], Some (StatusError PermissionDenied ''Invalid role''))"
proof -
  have absent: "FromIncomingContext background_ctx = None
      \<or> (\<exists>md. FromIncomingContext background_ctx = Some md \<and> md_Get md mdIdentityKey = [])"
    by (simp add: background_ctx_simps)
  have empty: "FromIncomingContext (incoming_ctx []) = None
      \<or> (\<exists>md. FromIncomingContext (incoming_ctx []) = Some md \<and> md_Get md mdIdentityKey = [])"
    by (simp add: incoming_ctx_simps)
  have ctx: "stream_Context \<lparr>stream_Context = background_ctx\<rparr> = background_ctx"
    "stream_Context (incoming_stream []) = incoming_ctx []"
    by (simp_all add: incoming_ctx_simps)
  show ?thesis
    using GrantAccess_denies_without_value [where unmarshal = scenario_unmarshal,
        OF absent ctx(1),
        of "''admin''" "''ping''" "()" scenario_handler "''srv''" "()" scenario_stream_handler]
      GrantAccess_denies_without_value [where unmarshal = scenario_unmarshal,
        OF empty ctx(2),
        of "''admin''" "''ping''" "()" scenario_handler "''srv''" "()" scenario_stream_handler]
    by (simp add: ErrInvalidRole_def)
qed

subsection \<open>Server side: the stream handler's context\<close>

text \<open>
  Claim C7. On the stream path, when the first value under the key decodes to an
  identity \<open>i\<close> that has the required role, the interceptor calls the handler once, with
  \<^verbatim>\<open>srv\<close> and the server stream \<^verbatim>\<open>ss\<close> it was given, and returns the handler's error.
  The stream is the original one: the decoded identity is not attached to its context,
  so on a stream whose context did not carry \<open>i\<close> on arrival, no stream handed to the
  handler carries \<open>i\<close> in its context.
\<close>

theorem GrantAccessForStreamRequest_keeps_stream:
  assumes "FromIncomingContext (stream_Context ss) = Some md"
    and "md_Get md mdIdentityKey = v # vs"
    and "unmarshal v = Inr i"
    and "role \<in> set (Roles i)"
  shows "GrantAccessForStreamRequest unmarshal role srv ss info handler =
           ([Unmarshal v, HandlerCall (srv, ss)], handler srv ss)
         \<and> (FromContext (stream_Context ss) \<noteq> Some i \<longrightarrow>
              (\<forall>(srv', ss') \<in>
                  set (handler_args
                    (fst (GrantAccessForStreamRequest unmarshal role srv ss info handler))).
                 FromContext (stream_Context ss') \<noteq> Some i))"
  using assms
  by (simp add: GrantAccessForStreamRequest_def stream_roles_loop_first_match)

text \<open>
  The roles \<^verbatim>\<open>["user","admin"]\<close> on the stream path: the handler is called, finds no
  identity in the context of its stream and fails with its own error.
\<close>

theorem GrantAccessForStreamRequest_keeps_stream_witness:
  "GrantAccessForStreamRequest scenario_unmarshal ''admin'' ''srv''
       (incoming_stream [payload_user_admin]) () scenario_stream_handler =
     ([Unmarshal payload_user_admin, HandlerCall (''srv'', incoming_stream [payload_user_admin])],
      Some (OtherError ''no identity''))
   \<and> FromContext (stream_Context (incoming_stream [payload_user_admin]))
       \<noteq> Some \<lparr>Roles = [''user'', ''admin'']\<rparr>
   \<and> list_all (\<lambda>(srv', ss'). FromContext (stream_Context ss') \<noteq> Some \<lparr>Roles = [''user'', ''admin'']\<rparr>)
       (handler_args (fst (GrantAccessForStreamRequest scenario_unmarshal ''admin'' ''srv''
          (incoming_stream [payload_user_admin]) () scenario_stream_handler)))"
proof -
  have md: "FromIncomingContext (stream_Context (incoming_stream [payload_user_admin]))
      = Some [mdIdentityKey \<mapsto> [payload_user_admin]]"
    by (simp add: incoming_ctx_simps)
  have first: "md_Get [mdIdentityKey \<mapsto> [payload_user_admin]] mdIdentityKey
      = payload_user_admin # []"
    by (simp add: incoming_ctx_simps)
  have decoded: "scenario_unmarshal payload_user_admin = Inr \<lparr>Roles = [''user'', ''admin'']\<rparr>"
    by (simp add: scenario_unmarshal_def)
  have member: "''admin'' \<in> set (Roles \<lparr>Roles = [''user'', ''admin'']\<rparr>)"
    by simp
  show ?thesis
    using GrantAccessForStreamRequest_keeps_stream [where unmarshal = scenario_unmarshal,
        OF md first decoded member, of "''srv''" "()" scenario_stream_handler]
    by (simp add: incoming_ctx_simps scenario_stream_handler_def)
qed

subsection \<open>Server side: several values under the key\<close>

text \<open>
  Claim C9. When the incoming metadata has the values \<open>v # extra\<close> under the key, both
  interceptors decode \<open>v\<close> and nothing else, and what they do is decided by \<open>v\<close> alone:
  the decode error of \<open>v\<close>; or, for the identity \<open>i\<close> that \<open>v\<close> decodes to, the handler's
  result (the unary handler being given \<open>i\<close> in its context) when \<open>i\<close> has the required
  role and \<^verbatim>\<open>ErrInvalidRole\<close> when it has not. The values \<open>extra\<close> are not decoded,
  and do not occur in the decision or in the identity attached.
\<close>

theorem GrantAccess_reads_first_value_only:
  assumes "FromIncomingContext ctx = Some md"
    and "md_Get md mdIdentityKey = v # extra"
    and "stream_Context ss = ctx"
  shows "GrantAccessForUnaryRequest unmarshal role ctx req info handler =
           (case unmarshal v of
              Inl err \<Rightarrow> ([Unmarshal v], (None, Some (JSONError err)))
            | Inr i \<Rightarrow>
                if role \<in> set (Roles i)
                then ([Unmarshal v, HandlerCall (ContextWithIdentity ctx i, req)],
                      handler (ContextWithIdentity ctx i) req)
                else ([Unmarshal v], (None, Some ErrInvalidRole)))
         \<and> GrantAccessForStreamRequest unmarshal role srv ss sinfo shandler =
           (case unmarshal v of
              Inl err \<Rightarrow> ([Unmarshal v], Some (JSONError err))
            | Inr i \<Rightarrow>
                if role \<in> set (Roles i)
                then ([Unmarshal v, HandlerCall (srv, ss)], shandler srv ss)
                else ([Unmarshal v], Some ErrInvalidRole))"
  using assms
  by (simp add: GrantAccessForUnaryRequest_def GrantAccessForStreamRequest_def
      unary_roles_loop_first_match stream_roles_loop_first_match split: sum.split)

text \<open>
  Three values under the key: an identity without the role \<^verbatim>\<open>"admin"\<close> first, then one
  with it, then a text that does not decode. Access is denied on the first value; the
  other two play no part.
\<close>

theorem GrantAccess_reads_first_value_only_witness:
  "GrantAccessForUnaryRequest scenario_unmarshal ''admin''
       (incoming_ctx [payload_user, payload_user_admin, payload_malformed]) ''ping'' ()
       scenario_handler =
     ([Unmarshal payload_user], (None, Some (StatusError PermissionDenied ''Invalid role'')))
   \<and> GrantAccessForStreamRequest scenario_unmarshal ''admin'' ''srv''
       (incoming_stream [payload_user, payload_user_admin, payload_malformed]) ()
       scenario_stream_handler =
     ([Unmarshal payload_user], Some (StatusError PermissionDenied ''Invalid role''))"
proof -
  let ?vals = "[payload_user, payload_user_admin, payload_malformed]"
  have md: "FromIncomingContext (incoming_ctx ?vals) = Some [mdIdentityKey \<mapsto> ?vals]"
    by (simp add: incoming_ctx_simps)
  have first: "md_Get [mdIdentityKey \<mapsto> ?vals] mdIdentityKey
      = payload_user # [payload_user_admin, payload_malformed]"
    by (simp add: incoming_ctx_simps)
  have ctx: "stream_Context (incoming_stream ?vals) = incoming_ctx ?vals"
    by (simp add: incoming_ctx_simps)
  have decoded: "scenario_unmarshal payload_user = Inr \<lparr>Roles = [''user'', ''Admin'']\<rparr>"
    by (simp add: scenario_unmarshal_def payloads_distinct)
  show ?thesis
    using GrantAccess_reads_first_value_only [OF md first ctx,
        of scenario_unmarshal "''admin''" "''ping''" "()" scenario_handler
          "''srv''" "()" scenario_stream_handler]
    by (simp add: decoded ErrInvalidRole_def)
qed

subsection \<open>Client side\<close>

text \<open>
  Claim C5. When the outgoing context carries an identity and \<^verbatim>\<open>json.Marshal\<close> fails
  on it, the unary and the stream client interceptor both return the error of
  \<^verbatim>\<open>json.Marshal\<close> itself (the stream one with a nil stream), and the only call they
  made is the encoding: the invoker, or the streamer, is not called.
\<close>

theorem AppendIdentity_aborts_on_marshal_error:
  assumes "FromContext ctx = Some i"
    and "marshal i = Inl err"
  shows "AppendIdentityToOutgoingUnaryContext marshal ctx method req reply cc invoker opts =
           ([Marshal i], Some (JSONError err))
         \<and> AppendIdentityToOutgoingStreamContext marshal ctx desc scc smethod streamer sopts =
           ([Marshal i], (None, Some (JSONError err)))"
  using assms
  by (simp add: AppendIdentityToOutgoingUnaryContext_def
      AppendIdentityToOutgoingStreamContext_def)

theorem AppendIdentity_aborts_on_marshal_error_witness:
  "AppendIdentityToOutgoingUnaryContext scenario_marshal
       (ContextWithIdentity background_ctx \<lparr>Roles = [''guest'']\<rparr>)
       ''/user.Service/Get'' ''ping'' ''pong'' (0::nat) scenario_invoker [] =
     ([Marshal \<lparr>Roles = [''guest'']\<rparr>], Some (JSONError ''unsupported value''))
   \<and> AppendIdentityToOutgoingStreamContext scenario_marshal
       (ContextWithIdentity background_ctx \<lparr>Roles = [''guest'']\<rparr>)
       (1::nat) (0::nat) ''/user.Service/List'' scenario_streamer [] =
     ([Marshal \<lparr>Roles = [''guest'']\<rparr>], (None, Some (JSONError ''unsupported value'')))"
proof -
  have ctx: "FromContext (ContextWithIdentity background_ctx \<lparr>Roles = [''guest'']\<rparr>)
      = Some \<lparr>Roles = [''guest'']\<rparr>"
    by (simp add: FromContext_def ContextWithIdentity_def)
  have fails: "scenario_marshal \<lparr>Roles = [''guest'']\<rparr> = Inl ''unsupported value''"
    by (simp add: scenario_marshal_def)
  show ?thesis
    using AppendIdentity_aborts_on_marshal_error [where marshal = scenario_marshal,
        OF ctx fails]
    by simp
qed

text \<open>
  Claim C6. When the outgoing context carries no identity, the unary client interceptor
  makes one call, of the invoker, with the context, method, request, reply, connection
  and options it received, and returns the invoker's error; the stream client
  interceptor does the same with the streamer. The context handed on is the one
  received, so no metadata was attached and nothing was encoded.
\<close>

theorem AppendIdentity_forwards_unchanged:
  assumes "FromContext ctx = None"
  shows "AppendIdentityToOutgoingUnaryContext marshal ctx method req reply cc invoker opts =
           ([Forward (ctx, method, req, reply, cc, opts)],
            invoker ctx method req reply cc opts)
         \<and> AppendIdentityToOutgoingStreamContext marshal ctx desc scc smethod streamer sopts =
           ([Forward (ctx, desc, scc, smethod, sopts)],
            streamer ctx desc scc smethod sopts)"
  using assms
  by (simp add: AppendIdentityToOutgoingUnaryContext_def
      AppendIdentityToOutgoingStreamContext_def)

text \<open>
  The scenario of a call with no identity: it goes out with no value under the key, and
  the guarded remote end denies it.
\<close>

theorem AppendIdentity_forwards_unchanged_witness:
  "AppendIdentityToOutgoingUnaryContext scenario_marshal background_ctx
       ''/user.Service/Get'' ''ping'' ''pong'' (0::nat) scenario_invoker [] =
     ([Forward (background_ctx, ''/user.Service/Get'', ''ping'', ''pong'', 0, [])],
      Some (StatusError PermissionDenied ''Invalid role''))
   \<and> AppendIdentityToOutgoingStreamContext scenario_marshal background_ctx
       (1::nat) (0::nat) ''/user.Service/List'' scenario_streamer [] =
     ([Forward (background_ctx, 1, 0, ''/user.Service/List'', [])],
      (None, Some (StatusError PermissionDenied ''Invalid role'')))"
proof -
  have absent: "FromContext background_ctx = None"
    by (simp add: background_ctx_simps)
  show ?thesis
    using AppendIdentity_forwards_unchanged [OF absent,
        of scenario_marshal _ _ _ _ scenario_invoker _ _ _ _ scenario_streamer]
    by (simp add: scenario_invoker_def scenario_streamer_def md_Get_def background_ctx_simps)
qed

text \<open>
  The remaining path of the client interceptors: with an identity that encodes to
  \<open>jsn\<close>, the call goes on with a context whose outgoing metadata has \<open>jsn\<close> after the
  values it already had under the key.
\<close>

lemma AppendIdentity_attaches_encoding:
  assumes "FromContext ctx = Some i"
    and "marshal i = Inr jsn"
  shows "AppendIdentityToOutgoingUnaryContext marshal ctx method req reply cc invoker opts =
           ([Marshal i,
             Forward (AppendToOutgoingContext ctx mdIdentityKey jsn, method, req, reply, cc, opts)],
            invoker (AppendToOutgoingContext ctx mdIdentityKey jsn) method req reply cc opts)"
    and "AppendIdentityToOutgoingStreamContext marshal ctx desc scc smethod streamer sopts =
           ([Marshal i,
             Forward (AppendToOutgoingContext ctx mdIdentityKey jsn, desc, scc, smethod, sopts)],
            streamer (AppendToOutgoingContext ctx mdIdentityKey jsn) desc scc smethod sopts)"
    and "md_Get (outgoing_md (AppendToOutgoingContext ctx mdIdentityKey jsn)) mdIdentityKey =
           md_Get (outgoing_md ctx) mdIdentityKey @ [jsn]"
proof -
  show "AppendIdentityToOutgoingUnaryContext marshal ctx method req reply cc invoker opts =
           ([Marshal i,
             Forward (AppendToOutgoingContext ctx mdIdentityKey jsn, method, req, reply, cc, opts)],
            invoker (AppendToOutgoingContext ctx mdIdentityKey jsn) method req reply cc opts)"
    using assms by (simp add: AppendIdentityToOutgoingUnaryContext_def Let_def)
  show "AppendIdentityToOutgoingStreamContext marshal ctx desc scc smethod streamer sopts =
           ([Marshal i,
             Forward (AppendToOutgoingContext ctx mdIdentityKey jsn, desc, scc, smethod, sopts)],
            streamer (AppendToOutgoingContext ctx mdIdentityKey jsn) desc scc smethod sopts)"
    using assms by (simp add: AppendIdentityToOutgoingStreamContext_def Let_def)
  show "md_Get (outgoing_md (AppendToOutgoingContext ctx mdIdentityKey jsn)) mdIdentityKey =
           md_Get (outgoing_md ctx) mdIdentityKey @ [jsn]"
    by (simp add: AppendToOutgoingContext_def md_Get_def)
qed

section \<open>Properties of the user command handlers\<close>

text \<open>
  Claim C10. Every call of a handler closure of \<^verbatim>\<open>OnChangeEmailAddress\<close>,
  \<^verbatim>\<open>OnRegisterWithEmail\<close>, \<^verbatim>\<open>OnRegisterWithFacebook\<close> or \<^verbatim>\<open>OnRegisterWithGoogle\<close>
  sends exactly one value on \<^verbatim>\<open>out\<close>, and the send is the last thing it does. When
  the operation on the aggregate returns an error, \<^verbatim>\<open>repository.Save\<close> is not called.
\<close>

theorem user_handlers_send_once:
  "sends_once_then_returns (OnChangeEmailAddress env repository ctx c)
   \<and> sends_once_then_returns (OnRegisterWithEmail env repository ctx ce)
   \<and> sends_once_then_returns (OnRegisterWithFacebook env repository ctx cf)
   \<and> sends_once_then_returns (OnRegisterWithGoogle env repository ctx cg)
   \<and> (fst (User_ChangeEmailAddress env (Get repository (ID c)) (ChangeEmailAddress.Email c))
          \<noteq> None
        \<longrightarrow> \<not> list_ex is_SaveCall (OnChangeEmailAddress env repository ctx c))
   \<and> (fst (User_RegisterWithEmail env (New env) (fst (uuid_NewRandom env))
              (RegisterWithEmail.Email ce)) \<noteq> None
        \<longrightarrow> \<not> list_ex is_SaveCall (OnRegisterWithEmail env repository ctx ce))
   \<and> (fst (User_RegisterWithFacebook env (New env) (fst (uuid_NewRandom env))
              (RegisterWithFacebook.Email cf)) \<noteq> None
        \<longrightarrow> \<not> list_ex is_SaveCall (OnRegisterWithFacebook env repository ctx cf))
   \<and> (fst (User_RegisterWithGoogle env (New env) (fst (uuid_NewRandom env))
              (RegisterWithGoogle.Email cg)) \<noteq> None
        \<longrightarrow> \<not> list_ex is_SaveCall (OnRegisterWithGoogle env repository ctx cg))"
  by (simp add: sends_once_then_returns_def OnChangeEmailAddress_def OnRegisterWithEmail_def
      OnRegisterWithFacebook_def OnRegisterWithGoogle_def Let_def
      split: prod.split option.split)

text \<open>
  The four handlers on a command with an empty e-mail address, which the aggregate
  refuses: one send, of the aggregate's error, and no save.
\<close>

theorem user_handlers_send_once_witness:
  "OnChangeEmailAddress scenario_env scenario_repository [] \<lparr>ID = 3, ChangeEmailAddress.Email = ''''\<rparr>
     = [GetCall 3, Send (Some ''invalid email'')]
   \<and> OnRegisterWithEmail scenario_env scenario_repository [] \<lparr>RegisterWithEmail.Email = ''''\<rparr>
     = [Send (Some ''invalid email'')]
   \<and> sends_once_then_returns
       (OnChangeEmailAddress scenario_env scenario_repository [] \<lparr>ID = 3, ChangeEmailAddress.Email = ''''\<rparr>)
   \<and> sends_once_then_returns
       (OnRegisterWithEmail scenario_env scenario_repository [] \<lparr>RegisterWithEmail.Email = ''''\<rparr>)
   \<and> sends_once_then_returns
       (OnRegisterWithFacebook scenario_env scenario_repository [] \<lparr>RegisterWithFacebook.Email = ''''\<rparr>)
   \<and> sends_once_then_returns
       (OnRegisterWithGoogle scenario_env scenario_repository [] \<lparr>RegisterWithGoogle.Email = ''''\<rparr>)
   \<and> \<not> list_ex is_SaveCall
       (OnChangeEmailAddress scenario_env scenario_repository [] \<lparr>ID = 3, ChangeEmailAddress.Email = ''''\<rparr>)
   \<and> \<not> list_ex is_SaveCall
       (OnRegisterWithEmail scenario_env scenario_repository [] \<lparr>RegisterWithEmail.Email = ''''\<rparr>)
   \<and> \<not> list_ex is_SaveCall
       (OnRegisterWithFacebook scenario_env scenario_repository [] \<lparr>RegisterWithFacebook.Email = ''''\<rparr>)
   \<and> \<not> list_ex is_SaveCall
       (OnRegisterWithGoogle scenario_env scenario_repository [] \<lparr>RegisterWithGoogle.Email = ''''\<rparr>)"
proof -
  have refused:
    "fst (User_ChangeEmailAddress scenario_env (Get scenario_repository 3) '''') \<noteq> None"
    "fst (User_RegisterWithEmail scenario_env (New scenario_env)
        (fst (uuid_NewRandom scenario_env)) '''') \<noteq> None"
    "fst (User_RegisterWithFacebook scenario_env (New scenario_env)
        (fst (uuid_NewRandom scenario_env)) '''') \<noteq> None"
    "fst (User_RegisterWithGoogle scenario_env (New scenario_env)
        (fst (uuid_NewRandom scenario_env)) '''') \<noteq> None"
    by (simp_all add: scenario_env_def)
  have traces:
    "OnChangeEmailAddress scenario_env scenario_repository [] \<lparr>ID = 3, ChangeEmailAddress.Email = ''''\<rparr>
       = [GetCall 3, Send (Some ''invalid email'')]"
    "OnRegisterWithEmail scenario_env scenario_repository [] \<lparr>RegisterWithEmail.Email = ''''\<rparr>
       = [Send (Some ''invalid email'')]"
    by (simp_all add: OnChangeEmailAddress_def OnRegisterWithEmail_def scenario_env_def
        scenario_repository_def)
  show ?thesis
    using refused traces
      user_handlers_send_once [of scenario_env scenario_repository "[]"
        "\<lparr>ID = 3, ChangeEmailAddress.Email = ''''\<rparr>"
        "\<lparr>RegisterWithEmail.Email = ''''\<rparr>" "\<lparr>RegisterWithFacebook.Email = ''''\<rparr>"
        "\<lparr>RegisterWithGoogle.Email = ''''\<rparr>"]
    by simp
qed

end
